theory Spec2Isabelle
  imports Main
begin

section \<open>Data model\<close>

text \<open>
  How a process stops other than by returning from the function at hand:
  \<open>exit(code)\<close>, a successful \<open>execve\<close> (the process image is replaced), a read
  through a null pointer, or a read past the end of the argument array.
\<close>

datatype halt =
    Exit int
  | Execve string "string list" "string list option"
  | NullDeref
  | OutOfBounds

text \<open>
  \<open>t_cmds\<close>: one pipeline stage. \<open>str\<close> is the NULL-terminated argument array: the list
  holds the entries before the terminator, so \<open>str[length]\<close> is the NULL slot. The
  \<open>next\<close> link of the C struct is the tail of the list of stages held by the shell.
  A \<open>string\<close> holds the bytes of a C string before its terminating NUL.
\<close>

record t_cmds =
  str :: "string list"
  pipefd :: "int \<times> int"
  pid :: int

text \<open>\<open>t_shell\<close>: \<open>env\<close> is a NULL-terminated array behind a pointer that may be NULL.\<close>

record t_shell =
  env :: "string list option"
  cmds :: "t_cmds list"
  stop :: bool

datatype syscall =
    SysClose int
  | SysDup int
  | SysDup2 int int
  | SysPipe
  | SysFork
  | SysWaitpid int

text \<open>
  The state one process sees: the shell structure, the global \<open>g_return_value\<close>, the
  bytes written so far to descriptors 1 and 2, the bytes \<open>printf\<close> has left in the buffer
  of \<open>stdout\<close> and that have not reached descriptor 1 yet, and the system calls issued so
  far. At an \<open>exit\<close> the state is the one just before the process ends: the C library
  then writes what is left in \<open>stdio_out\<close>.
\<close>

record world =
  shell :: t_shell
  g_return_value :: int
  fd_out :: string
  fd_err :: string
  stdio_out :: string
  trace :: "syscall list"

text \<open>What \<open>waitpid\<close> leaves in \<open>status\<close>, as the macros \<open>WIFEXITED\<close>, \<open>WEXITSTATUS\<close>,
  \<open>WIFSIGNALED\<close> and \<open>WTERMSIG\<close> read it; \<open>WOther\<close> is a status that is neither.\<close>

datatype wstatus = WExited int | WSignaled int | WOther

text \<open>The operating system, as far as the executor asks it anything.\<close>

record os =
  sys_access :: "string \<Rightarrow> bool"
  sys_execve :: "string \<Rightarrow> bool"
  sys_errmsg :: string
  sys_getcwd :: "string option"
  sys_dup :: "int \<Rightarrow> int"
  sys_dup2 :: "int \<Rightarrow> int \<Rightarrow> int"
  sys_waitpid :: "int \<Rightarrow> wstatus"
  sys_line_buffered :: bool

definition STDIN :: int where "STDIN = 0"
definition STDOUT :: int where "STDOUT = 1"
definition STDERR :: int where "STDERR = 2"
definition SIGINT :: int where "SIGINT = 2"
definition SIGQUIT :: int where "SIGQUIT = 3"

section \<open>libft\<close>

text \<open>
  Modelled from the spec: libft is not among the sources. \<open>ft_strncmp\<close> is C's
  \<open>strncmp\<close> (the dispatcher relies on it for an exact name match when given the
  length of the name plus one): it compares at most \<open>n\<close> bytes, the terminating NUL
  included, and returns the difference of the first two bytes that differ. It reads
  through its first argument, so a NULL there is a null dereference.
\<close>

fun strncmp_bytes :: "string \<Rightarrow> string \<Rightarrow> nat \<Rightarrow> int" where
  "strncmp_bytes s1 s2 0 = 0"
| "strncmp_bytes [] [] (Suc n) = 0"
| "strncmp_bytes [] (b # bs) (Suc n) = 0 - int (of_char b)"
| "strncmp_bytes (a # as) [] (Suc n) = int (of_char a)"
| "strncmp_bytes (a # as) (b # bs) (Suc n) =
     (if a = b then strncmp_bytes as bs n else int (of_char a) - int (of_char b))"

definition ft_strncmp :: "string option \<Rightarrow> string \<Rightarrow> nat \<Rightarrow> halt + int" where
  "ft_strncmp s1 s2 n =
     (case s1 of
        None \<Rightarrow> if n = 0 then Inr 0 else Inl NullDeref
      | Some a \<Rightarrow> Inr (strncmp_bytes a s2 n))"

text \<open>Modelled from the spec: \<open>ft_putstr_fd\<close> and \<open>ft_putchar_fd\<close> of libft write to
  the descriptor; only descriptors 1 and 2 are recorded.\<close>

definition ft_putstr_fd :: "string \<Rightarrow> int \<Rightarrow> world \<Rightarrow> world" where
  "ft_putstr_fd s fd w =
     (if fd = 1 then w\<lparr>fd_out := fd_out w @ s\<rparr>
      else if fd = 2 then w\<lparr>fd_err := fd_err w @ s\<rparr>
      else w)"

definition ft_putchar_fd :: "char \<Rightarrow> int \<Rightarrow> world \<Rightarrow> world" where
  "ft_putchar_fd c fd w = ft_putstr_fd [c] fd w"

text \<open>\<open>perror(s)\<close>: the string, a colon and a space when the string is not empty, then
  the message for \<open>errno\<close> and a newline, on descriptor 2.\<close>

definition perror :: "os \<Rightarrow> string \<Rightarrow> world \<Rightarrow> world" where
  "perror sys s w =
     ft_putstr_fd ((if s = [] then [] else s @ '': '') @ sys_errmsg sys @ ''\<newline>'') 2 w"

text \<open>\<open>printf\<close> of a line that ends with a newline: the bytes go to the buffer of
  \<open>stdout\<close>. When \<open>stdout\<close> is line buffered (a terminal) the newline sends the buffer to
  descriptor 1 at once; otherwise (a pipe, a file) the bytes stay in the buffer.\<close>

definition printf_line :: "os \<Rightarrow> string \<Rightarrow> world \<Rightarrow> world" where
  "printf_line sys s w =
     (if sys_line_buffered sys
      then w\<lparr>fd_out := fd_out w @ stdio_out w @ s, stdio_out := []\<rparr>
      else w\<lparr>stdio_out := stdio_out w @ s\<rparr>)"

section \<open>The echo built-in\<close>

text \<open>\<open>cmd->str[i]\<close>: an entry, the NULL terminator, or a read past the array.\<close>

definition str_at :: "t_cmds \<Rightarrow> nat \<Rightarrow> halt + string option" where
  "str_at cmd i =
     (if i < length (str cmd) then Inr (Some (str cmd ! i))
      else if i = length (str cmd) then Inr None
      else Inl OutOfBounds)"

text \<open>\<open>s[j]\<close> for \<open>j\<close> up to the terminator, which reads as NUL.\<close>

definition byte_at :: "string \<Rightarrow> nat \<Rightarrow> char" where
  "byte_at s j = (if j < length s then s ! j else CHR 0x00)"

text \<open>The inner loops \<open>while (s[j] == 'n') j++\<close>: they stop at the terminator at the
  latest.\<close>

function skip_n :: "string \<Rightarrow> nat \<Rightarrow> nat" where
  "skip_n s j = (if j < length s \<and> byte_at s j = CHR ''n'' then skip_n s (Suc j) else j)"
  by pat_completeness auto
termination
  by (relation "measure (\<lambda>(s, j). length s - j)") auto

declare skip_n.simps [simp del]

function last_check :: "nat \<Rightarrow> t_cmds \<Rightarrow> halt + nat" where
  "last_check i cmd =
     (case str_at cmd i of
        Inl h \<Rightarrow> Inl h
      | Inr a \<Rightarrow>
         (case ft_strncmp a ''-n'' 2 of
            Inl h \<Rightarrow> Inl h
          | Inr r \<Rightarrow>
             if r = 0 then
               (case a of
                  None \<Rightarrow> Inl NullDeref
                | Some s \<Rightarrow>
                   (let j = skip_n s 1 in
                    if byte_at s j \<noteq> CHR 0x00 then Inr i
                    else last_check (Suc i) cmd))
             else Inr i))"
  by pat_completeness auto
termination
proof (relation "measure (\<lambda>(i, cmd). Suc (length (str cmd)) - i)")
  show "wf (measure (\<lambda>(i, cmd). Suc (length (str cmd)) - i))"
    by simp
next
  fix i cmd a r j
  assume "str_at cmd i = Inr a" and "ft_strncmp a ''-n'' 2 = Inr r"
  then show "((Suc i, cmd), (i, cmd)) \<in> measure (\<lambda>(i, cmd). Suc (length (str cmd)) - i)"
    by (auto simp: str_at_def ft_strncmp_def split: if_splits option.splits)
qed

declare last_check.simps [simp del]

text \<open>\<open>check_n\<close> returns the new index together with the cells \<open>*check\<close> and \<open>*n\<close>.\<close>

definition check_n :: "t_cmds \<Rightarrow> nat \<Rightarrow> nat \<Rightarrow> nat \<Rightarrow> halt + (nat \<times> nat \<times> nat)" where
  "check_n cmd i check n =
     (case str_at cmd i of
        Inl h \<Rightarrow> Inl h
      | Inr a \<Rightarrow>
         (case ft_strncmp a ''-n'' 2 of
            Inl h \<Rightarrow> Inl h
          | Inr r \<Rightarrow>
             if r = 0 \<and> i = 1 then
               (case a of
                  None \<Rightarrow> Inl NullDeref
                | Some s \<Rightarrow>
                   (let check1 = skip_n s check;
                        (i2, check2, n2) =
                          (if byte_at s check1 = CHR 0x00 then (Suc i, 0, 0)
                           else (1, check1, n))
                    in if i2 > 0 then
                         (case last_check i2 cmd of
                            Inl h \<Rightarrow> Inl h
                          | Inr i3 \<Rightarrow> Inr (i3, check2, n2))
                       else Inr (i2, check2, n2)))
             else Inr (i, check, n)))"

function echo_loop :: "t_cmds \<Rightarrow> nat \<Rightarrow> world \<Rightarrow> (halt + unit) \<times> world" where
  "echo_loop cmd i w =
     (case str_at cmd i of
        Inl h \<Rightarrow> (Inl h, w)
      | Inr None \<Rightarrow> (Inr (), w)
      | Inr (Some s) \<Rightarrow>
         (let w1 = ft_putstr_fd s 1 w in
          case str_at cmd (i + 1) of
            Inl h \<Rightarrow> (Inl h, w1)
          | Inr nxt \<Rightarrow>
              echo_loop cmd (Suc i)
                (if nxt \<noteq> None then ft_putchar_fd CHR '' '' 1 w1 else w1)))"
  by pat_completeness auto
termination
  by (relation "measure (\<lambda>(cmd, i, w). Suc (length (str cmd)) - i)")
     (auto simp: str_at_def split: if_splits)

declare echo_loop.simps [simp del]

definition ft_echo :: "t_cmds \<Rightarrow> world \<Rightarrow> (halt + int) \<times> world" where
  "ft_echo cmd w =
     (case check_n cmd 1 1 1 of
        Inl h \<Rightarrow> (Inl h, w)
      | Inr (i, check, n) \<Rightarrow>
         (case echo_loop cmd i w of
            (Inl h, w1) \<Rightarrow> (Inl h, w1)
          | (Inr u, w1) \<Rightarrow>
              (Inr 0, if n \<noteq> 0 \<and> check \<noteq> 0 then ft_putchar_fd CHR 0x0A 1 w1 else w1)))"

section \<open>The pwd built-in\<close>

text \<open>\<open>ft_getcwd\<close> is \<open>getcwd\<close> into a buffer of \<open>PATH_MAX\<close> bytes: the path, or NULL.\<close>

definition ft_getcwd :: "os \<Rightarrow> string option" where
  "ft_getcwd sys = sys_getcwd sys"

definition ft_pwd :: "os \<Rightarrow> world \<Rightarrow> (halt + int) \<times> world" where
  "ft_pwd sys w =
     (case ft_getcwd sys of
        Some pwd \<Rightarrow> (Inr 0, printf_line sys (pwd @ ''\<newline>'') w)
      | None \<Rightarrow> (Inr 1, w))"

section \<open>Collaborators outside the sources\<close>

text \<open>
  The other five built-ins, the heredoc pass and the redirection applier are called by
  the executor and defined elsewhere: they are parameters. Each may change the state
  and may end the process.
\<close>

record collab =
  ft_cd :: "t_cmds \<Rightarrow> world \<Rightarrow> (halt + int) \<times> world"
  ft_export :: "t_cmds \<Rightarrow> int \<Rightarrow> world \<Rightarrow> (halt + int) \<times> world"
  ft_unset :: "t_cmds \<Rightarrow> world \<Rightarrow> (halt + int) \<times> world"
  ft_env :: "string list option \<Rightarrow> world \<Rightarrow> (halt + int) \<times> world"
  ft_exit :: "t_cmds \<Rightarrow> world \<Rightarrow> (halt + int) \<times> world"
  handle_heredocs :: "world \<Rightarrow> (halt + unit) \<times> world"
  handle_redirections :: "t_cmds \<Rightarrow> world \<Rightarrow> (halt + bool) \<times> world"

section \<open>Built-in dispatch\<close>

text \<open>\<open>cmd->str[0]\<close> handed to \<open>ft_strncmp\<close>: a NULL there is read through by the first
  comparison.\<close>

definition argv0 :: "t_cmds \<Rightarrow> halt + string" where
  "argv0 cmd =
     (case str_at cmd 0 of
        Inl h \<Rightarrow> Inl h
      | Inr None \<Rightarrow> Inl NullDeref
      | Inr (Some s) \<Rightarrow> Inr s)"

definition is_builtin :: "t_cmds \<Rightarrow> halt + bool" where
  "is_builtin cmd =
     (case argv0 cmd of
        Inl h \<Rightarrow> Inl h
      | Inr s \<Rightarrow>
         if strncmp_bytes s ''pwd'' 4 = 0 then Inr True
         else if strncmp_bytes s ''echo'' 5 = 0 then Inr True
         else if strncmp_bytes s ''cd'' 3 = 0 then Inr True
         else if strncmp_bytes s ''export'' 7 = 0 then Inr True
         else if strncmp_bytes s ''unset'' 6 = 0 then Inr True
         else if strncmp_bytes s ''env'' 4 = 0 then Inr True
         else if strncmp_bytes s ''exit'' 5 = 0 then Inr True
         else Inr False)"

text \<open>\<open>g_return_value = f(...); return (1);\<close> for the built-in that matched.\<close>

definition set_status :: "(halt + int) \<times> world \<Rightarrow> (halt + int) \<times> world" where
  "set_status r =
     (case r of
        (Inl h, w) \<Rightarrow> (Inl h, w)
      | (Inr v, w) \<Rightarrow> (Inr 1, w\<lparr>g_return_value := v\<rparr>))"

definition execute_builtin :: "collab \<Rightarrow> os \<Rightarrow> t_cmds \<Rightarrow> world \<Rightarrow> (halt + int) \<times> world" where
  "execute_builtin co sys cmd w =
     (case argv0 cmd of
        Inl h \<Rightarrow> (Inl h, w)
      | Inr s \<Rightarrow>
         if strncmp_bytes s ''pwd'' 4 = 0 then set_status (ft_pwd sys w)
         else if strncmp_bytes s ''echo'' 5 = 0 then set_status (ft_echo cmd w)
         else if strncmp_bytes s ''cd'' 3 = 0 then set_status (ft_cd co cmd w)
         else if strncmp_bytes s ''export'' 7 = 0 then set_status (ft_export co cmd 0 w)
         else if strncmp_bytes s ''unset'' 6 = 0 then set_status (ft_unset co cmd w)
         else if strncmp_bytes s ''env'' 4 = 0 then set_status (ft_env co (env (shell w)) w)
         else if strncmp_bytes s ''exit'' 5 = 0 then set_status (ft_exit co cmd w)
         else (Inr 0, w))"

section \<open>External commands\<close>

text \<open>Modelled from the spec: \<open>ft_strchr\<close> of libft, the suffix from the first
  occurrence of the byte, or NULL.\<close>

definition ft_strchr :: "string \<Rightarrow> char \<Rightarrow> string option" where
  "ft_strchr s c =
     (case dropWhile (\<lambda>x. x \<noteq> c) s of [] \<Rightarrow> None | r # rs \<Rightarrow> Some (r # rs))"

text \<open>Modelled from the spec: \<open>ft_split\<close> of libft splits at the separator and keeps the
  non-empty pieces, in order.\<close>

fun split_from :: "char \<Rightarrow> string \<Rightarrow> string \<Rightarrow> string list" where
  "split_from c cur [] = (if cur = [] then [] else [cur])"
| "split_from c cur (x # xs) =
     (if x = c then (if cur = [] then split_from c [] xs else cur # split_from c [] xs)
      else split_from c (cur @ [x]) xs)"

definition ft_split :: "string \<Rightarrow> char \<Rightarrow> string list" where
  "ft_split s c = split_from c [] s"

text \<open>Modelled from the spec: \<open>ft_strjoin\<close> and \<open>ft_strjoin_free\<close> of libft concatenate.\<close>

definition ft_strjoin :: "string \<Rightarrow> string \<Rightarrow> string" where
  "ft_strjoin a b = a @ b"

definition execute_currdir :: "os \<Rightarrow> t_cmds \<Rightarrow> world \<Rightarrow> (halt + bool) \<times> world" where
  "execute_currdir sys cmd w =
     (case argv0 cmd of
        Inl h \<Rightarrow> (Inl h, w)
      | Inr s \<Rightarrow>
         if byte_at s 0 = CHR 0x00 then
           (Inl (Exit 127), ft_putstr_fd ''minishell: : command not found\<newline>'' STDERR w)
         else if ft_strchr s CHR ''/'' = None then (Inr False, w)
         else if sys_access sys s then
           (if sys_execve sys s then (Inl (Execve s (str cmd) (env (shell w))), w)
            else (Inl (Exit 126), perror sys s (ft_putstr_fd ''minishell: '' STDERR w)))
         else (Inr False, w))"

text \<open>The search loop of \<open>ft_execve\<close> over the directories that are left.\<close>

fun search_path :: "os \<Rightarrow> t_cmds \<Rightarrow> string \<Rightarrow> string list \<Rightarrow> world \<Rightarrow> (halt option) \<times> world" where
  "search_path sys cmd name [] w = (None, w)"
| "search_path sys cmd name (d # ds) w =
     (let tmp = ft_strjoin (ft_strjoin d ''/'') name in
      if sys_access sys tmp then
        (if sys_execve sys tmp then (Some (Execve tmp (str cmd) (env (shell w))), w)
         else (Some (Exit (- 1)), perror sys name w))
      else search_path sys cmd name ds w)"

text \<open>\<open>ft_execve\<close> never returns. \<open>path\<close> is a pointer to a NULL-terminated array, or
  NULL. The name \<open>cmd->str[0]\<close> is joined to each directory and printed, so a NULL there
  is read through; \<open>execute_cmd\<close> never passes one. \<open>ft_free_arr\<close> and \<open>free\<close> release
  memory and leave the state described here alone.\<close>

definition ft_execve :: "os \<Rightarrow> t_cmds \<Rightarrow> string list option \<Rightarrow> world \<Rightarrow> halt \<times> world" where
  "ft_execve sys cmd path w =
     (case argv0 cmd of
        Inl h \<Rightarrow> (h, w)
      | Inr name \<Rightarrow>
         (case search_path sys cmd name (case path of None \<Rightarrow> [] | Some ds \<Rightarrow> ds) w of
            (Some h, w1) \<Rightarrow> (h, w1)
          | (None, w1) \<Rightarrow>
              (Exit 127,
               ft_putstr_fd '': command not found\<newline>'' STDERR
                 (ft_putstr_fd name STDERR (ft_putstr_fd ''minishell: '' STDERR w1)))))"

text \<open>The loop of \<open>execute_cmd\<close> that looks for the entry starting with \<open>PATH=\<close>.\<close>

function path_index :: "string list \<Rightarrow> nat \<Rightarrow> nat" where
  "path_index e i =
     (if i < length e then
        (if strncmp_bytes (e ! i) ''PATH='' 5 = 0 then i else path_index e (Suc i))
      else i)"
  by pat_completeness auto
termination
  by (relation "measure (\<lambda>(e, i). length e - i)") auto

declare path_index.simps [simp del]

text \<open>The branch of \<open>execute_cmd\<close> taken when \<open>execute_builtin\<close> has returned 0:
  \<open>execute_currdir\<close>, then the search for \<open>PATH=\<close> and \<open>ft_execve\<close>. After the loop
  \<open>shell->env[i]\<close> is read whether or not \<open>shell->env\<close> is NULL.\<close>

definition resolve_external :: "os \<Rightarrow> t_cmds \<Rightarrow> world \<Rightarrow> halt \<times> world" where
  "resolve_external sys cmd w =
     (case execute_currdir sys cmd w of
        (Inl h, w2) \<Rightarrow> (h, w2)
      | (Inr c, w2) \<Rightarrow>
         if c then (Exit (g_return_value w2), w2)
         else
           (case env (shell w2) of
              None \<Rightarrow> (NullDeref, w2)
            | Some e \<Rightarrow>
               (let i = path_index e 0 in
                if i < length e
                then ft_execve sys cmd (Some (ft_split (drop 5 (e ! i)) CHR '':'')) w2
                else ft_execve sys cmd None w2)))"

text \<open>\<open>execute_cmd\<close> always ends the process.\<close>

definition execute_cmd :: "collab \<Rightarrow> os \<Rightarrow> t_cmds \<Rightarrow> world \<Rightarrow> halt \<times> world" where
  "execute_cmd co sys cmd w =
     (case str_at cmd 0 of
        Inl h \<Rightarrow> (h, w)
      | Inr None \<Rightarrow> (Exit 0, w)
      | Inr (Some s) \<Rightarrow>
         (case execute_builtin co sys cmd w of
            (Inl h, w1) \<Rightarrow> (h, w1)
          | (Inr b, w1) \<Rightarrow>
             if b \<noteq> 0 then (Exit (g_return_value w1), w1)
             else resolve_external sys cmd w1))"

section \<open>The pipeline\<close>

text \<open>\<open>handle_pipes\<close> has an empty body.\<close>

definition handle_pipes :: "t_cmds \<Rightarrow> int \<Rightarrow> world \<Rightarrow> world" where
  "handle_pipes cmd prev_fd w = w"

definition sys_call :: "syscall \<Rightarrow> world \<Rightarrow> world" where
  "sys_call c w = w\<lparr>trace := trace w @ [c]\<rparr>"

text \<open>The body of the reaping loop for one stage.\<close>

definition reap_stage :: "os \<Rightarrow> t_cmds \<Rightarrow> world \<Rightarrow> world" where
  "reap_stage sys cur w =
     (let w1 = sys_call (SysWaitpid (pid cur)) w;
          w2 = (case sys_waitpid sys (pid cur) of
                  WExited code \<Rightarrow> w1\<lparr>g_return_value := code\<rparr>
                | WSignaled sig \<Rightarrow>
                    if sig = SIGINT then w1\<lparr>g_return_value := 130\<rparr>
                    else if sig = SIGQUIT then w1\<lparr>g_return_value := 131\<rparr>
                    else w1
                | WOther \<Rightarrow> w1)
      in if g_return_value w2 = 130 \<or> g_return_value w2 = 131
         then w2\<lparr>shell := (shell w2)\<lparr>stop := True\<rparr>\<rparr>
         else w2)"

fun reap :: "os \<Rightarrow> t_cmds list \<Rightarrow> world \<Rightarrow> world" where
  "reap sys [] w = w"
| "reap sys (cur # rest) w = reap sys rest (reap_stage sys cur w)"

definition ft_waitpid :: "os \<Rightarrow> world \<Rightarrow> world" where
  "ft_waitpid sys w = reap sys (cmds (shell w)) w"

definition ft_dup :: "os \<Rightarrow> int \<Rightarrow> world \<Rightarrow> (halt + int) \<times> world" where
  "ft_dup sys fd w =
     (let w1 = sys_call (SysDup fd) w; new_fd = sys_dup sys fd in
      if new_fd = - 1 then (Inl (Exit (- 1)), perror sys ''dup'' w1)
      else (Inr new_fd, w1))"

definition ft_dup2 :: "os \<Rightarrow> int \<Rightarrow> int \<Rightarrow> world \<Rightarrow> (halt + unit) \<times> world" where
  "ft_dup2 sys fd1 fd2 w =
     (let w1 = sys_call (SysDup2 fd1 fd2) w in
      if sys_dup2 sys fd1 fd2 = - 1 then (Inl (Exit (- 1)), perror sys ''dup2'' w1)
      else (Inr (), sys_call (SysClose fd1) w1))"

definition single_cmd :: "collab \<Rightarrow> os \<Rightarrow> world \<Rightarrow> (halt + bool) \<times> world" where
  "single_cmd co sys w =
     (case cmds (shell w) of
        [] \<Rightarrow> (Inl NullDeref, w)
      | c # cs \<Rightarrow>
         (case is_builtin c of
            Inl h \<Rightarrow> (Inl h, w)
          | Inr False \<Rightarrow> (Inr False, w)
          | Inr True \<Rightarrow>
             (case ft_dup sys STDIN w of
                (Inl h, w1) \<Rightarrow> (Inl h, w1)
              | (Inr save_stdin, w1) \<Rightarrow>
                 (case ft_dup sys STDOUT w1 of
                    (Inl h, w2) \<Rightarrow> (Inl h, w2)
                  | (Inr save_stdout, w2) \<Rightarrow>
                     (case handle_redirections co c w2 of
                        (Inl h, w3) \<Rightarrow> (Inl h, w3)
                      | (Inr ok, w3) \<Rightarrow>
                         (case (if ok then execute_builtin co sys c w3 else (Inr 0, w3)) of
                            (Inl h, w4) \<Rightarrow> (Inl h, w4)
                          | (Inr b, w4) \<Rightarrow>
                             (case ft_dup2 sys save_stdin STDIN w4 of
                                (Inl h, w5) \<Rightarrow> (Inl h, w5)
                              | (Inr u, w5) \<Rightarrow>
                                 (case ft_dup2 sys save_stdout STDOUT w5 of
                                    (Inl h, w6) \<Rightarrow> (Inl h, w6)
                                  | (Inr u, w6) \<Rightarrow> (Inr True, w6)))))))))"

text \<open>The launch loop of \<open>execute\<close>: \<open>while (curr && !shell->stop)\<close>.\<close>

fun launch :: "t_cmds list \<Rightarrow> int \<Rightarrow> world \<Rightarrow> world" where
  "launch [] prev_fd w = w"
| "launch (cur # rest) prev_fd w =
     (if stop (shell w) then w
      else
        (let w1 = handle_pipes cur prev_fd w;
             w2 = sys_call (SysClose prev_fd) w1;
             w3 = sys_call (SysClose (snd (pipefd cur))) w2
         in launch rest (fst (pipefd cur)) w3))"

definition execute :: "collab \<Rightarrow> os \<Rightarrow> world \<Rightarrow> (halt + unit) \<times> world" where
  "execute co sys w =
     (case handle_heredocs co w of
        (Inl h, w1) \<Rightarrow> (Inl h, w1)
      | (Inr u, w1) \<Rightarrow>
         (case cmds (shell w1) of
            [] \<Rightarrow> (Inl NullDeref, w1)
          | cur # rest \<Rightarrow>
             (case (if rest = [] then single_cmd co sys w1 else (Inr False, w1)) of
                (Inl h, w2) \<Rightarrow> (Inl h, w2)
              | (Inr True, w2) \<Rightarrow> (Inr (), w2)
              | (Inr False, w2) \<Rightarrow>
                  (Inr (), ft_waitpid sys (launch (cmds (shell w2)) (- 1) w2)))))"

section \<open>Notions used to state the properties\<close>

text \<open>A newline-suppression flag in the words of the specification: a dash followed by a
  non-empty run of the letter n.\<close>

definition valid_n_flag :: "string \<Rightarrow> bool" where
  "valid_n_flag f =
     (case f of
        [] \<Rightarrow> False
      | c # ns \<Rightarrow> c = CHR ''-'' \<and> ns \<noteq> [] \<and> list_all (\<lambda>x. x = CHR ''n'') ns)"

text \<open>The arguments separated by single spaces.\<close>

fun join_spaces :: "string list \<Rightarrow> string" where
  "join_spaces [] = []"
| "join_spaces [s] = s"
| "join_spaces (s # t # ts) = s @ '' '' @ join_spaces (t # ts)"

text \<open>The seven names of the specification.\<close>

definition builtin_names :: "string list" where
  "builtin_names = [''pwd'', ''echo'', ''cd'', ''export'', ''unset'', ''env'', ''exit'']"


text \<open>The state after the line \<open>minishell: NAME: command not found\<close> has gone to
  descriptor 2.\<close>

definition not_found :: "string \<Rightarrow> world \<Rightarrow> world" where
  "not_found name w = w\<lparr>fd_err := fd_err w @ ''minishell: '' @ name @ '': command not found\<newline>''\<rparr>"


section \<open>Sample inputs\<close>

text \<open>A stage as the parser leaves it: the argument array and the process identifier
  that \<open>waitpid\<close> will be asked about; \<open>pipefd\<close> holds zeroes.\<close>

definition stage :: "string list \<Rightarrow> int \<Rightarrow> t_cmds" where
  "stage argv p = \<lparr>str = argv, pipefd = (0, 0), pid = p\<rparr>"

definition session :: "string list option \<Rightarrow> t_cmds list \<Rightarrow> world" where
  "session e cs =
     \<lparr>shell = \<lparr>env = e, cmds = cs, stop = False\<rparr>, g_return_value = 0,
      fd_out = [], fd_err = [], stdio_out = [], trace = []\<rparr>"

definition quiet_os :: os where
  "quiet_os =
     \<lparr>sys_access = (\<lambda>p. False), sys_execve = (\<lambda>p. False),
      sys_errmsg = ''No such file or directory'', sys_getcwd = Some ''/'',
      sys_dup = (\<lambda>fd. 3), sys_dup2 = (\<lambda>a b. b), sys_waitpid = (\<lambda>p. WExited 0),
      sys_line_buffered = True\<rparr>"

definition no_collab :: collab where
  "no_collab =
     \<lparr>ft_cd = (\<lambda>c w. (Inr 0, w)), ft_export = (\<lambda>c n w. (Inr 0, w)),
      ft_unset = (\<lambda>c w. (Inr 0, w)), ft_env = (\<lambda>e w. (Inr 0, w)),
      ft_exit = (\<lambda>c w. (Inl (Exit 0), w)), handle_heredocs = (\<lambda>w. (Inr (), w)),
      handle_redirections = (\<lambda>c w. (Inr True, w))\<rparr>"

text \<open>An operating system whose \<open>waitpid\<close> reports the given status for process 1 and a
  normal exit with the given code for every other process.\<close>

definition waits :: "wstatus \<Rightarrow> int \<Rightarrow> os" where
  "waits st code = quiet_os\<lparr>sys_waitpid := (\<lambda>p. if p = 1 then st else WExited code)\<rparr>"

text \<open>An operating system where only \<open>/bin/./ls\<close> exists, and can be executed.\<close>

definition bin_os :: os where
  "bin_os = quiet_os\<lparr>sys_access := (\<lambda>p. p = ''/bin/./ls''), sys_execve := (\<lambda>p. True)\<rparr>"

text \<open>The session of the pipeline \<open>cat | wc\<close>, with the process identifiers of the two
  stages and the stop flag on entry.\<close>

definition cat_wc :: "int \<Rightarrow> int \<Rightarrow> bool \<Rightarrow> world" where
  "cat_wc p1 p2 halted =
     \<lparr>shell = \<lparr>env = Some [], cmds = [stage [''cat''] p1, stage [''wc''] p2], stop = halted\<rparr>,
      g_return_value = 0, fd_out = [], fd_err = [], stdio_out = [], trace = []\<rparr>"

section \<open>The exit-status collector\<close>

lemma reap_stage_trace: "trace (reap_stage sys c w) = trace w @ [SysWaitpid (pid c)]"
  by (simp add: reap_stage_def sys_call_def Let_def split: wstatus.split)

lemma reap_trace: "trace (reap sys cs w) = trace w @ map (\<lambda>c. SysWaitpid (pid c)) cs"
  by (induction cs arbitrary: w) (simp_all add: reap_stage_trace)

lemma reap_append: "reap sys (xs @ ys) w = reap sys ys (reap sys xs w)"
  by (induction xs arbitrary: w) simp_all

lemma reap_stage_exited:
  "sys_waitpid sys (pid c) = WExited code \<Longrightarrow> g_return_value (reap_stage sys c w) = code"
  by (simp add: reap_stage_def sys_call_def Let_def)

lemma reap_stage_stop_eq:
  "stop (shell (reap_stage sys c w)) =
     (stop (shell w) \<or> g_return_value (reap_stage sys c w) = 130
        \<or> g_return_value (reap_stage sys c w) = 131)"
  by (simp add: reap_stage_def sys_call_def Let_def split: wstatus.split)

lemma reap_stop_mono: "stop (shell w) \<Longrightarrow> stop (shell (reap sys cs w))"
  by (induction cs arbitrary: w) (simp_all add: reap_stage_stop_eq)

text \<open>
  C6. For one reaped stage, the collector stores the exit code of a normal exit, 130 for
  a death by the interrupt signal and 131 for a death by the quit signal; for any other
  terminating signal it stores nothing, so \<open>g_return_value\<close> keeps its earlier value.
\<close>

theorem reap_stage_maps_status:
  "(sys_waitpid sys (pid c) = WExited code \<longrightarrow> g_return_value (reap_stage sys c w) = code) \<and>
   (sys_waitpid sys (pid c) = WSignaled SIGINT \<longrightarrow> g_return_value (reap_stage sys c w) = 130) \<and>
   (sys_waitpid sys (pid c) = WSignaled SIGQUIT \<longrightarrow> g_return_value (reap_stage sys c w) = 131) \<and>
   (sys_waitpid sys (pid c) = WSignaled sig \<and> sig \<noteq> SIGINT \<and> sig \<noteq> SIGQUIT \<longrightarrow>
      g_return_value (reap_stage sys c w) = g_return_value w)"
  by (simp add: reap_stage_def sys_call_def Let_def SIGINT_def SIGQUIT_def)

theorem reap_stage_maps_status_witness:
  "g_return_value (reap_stage (waits (WExited 42) 0) (stage [''ls''] 1) (session (Some []) [])) = 42 \<and>
   g_return_value (reap_stage (waits (WSignaled SIGINT) 0) (stage [''ls''] 1) (session (Some []) [])) = 130 \<and>
   g_return_value (reap_stage (waits (WSignaled SIGQUIT) 0) (stage [''ls''] 1) (session (Some []) [])) = 131 \<and>
   g_return_value (reap_stage (waits (WSignaled 15) 0) (stage [''ls''] 1)
      ((session (Some []) [])\<lparr>g_return_value := 7\<rparr>)) = 7"
  using reap_stage_maps_status [of "waits (WExited 42) 0" "stage [''ls''] 1" 42 "session (Some []) []" 15]
    reap_stage_maps_status [of "waits (WSignaled SIGINT) 0" "stage [''ls''] 1" 0 "session (Some []) []" 15]
    reap_stage_maps_status [of "waits (WSignaled SIGQUIT) 0" "stage [''ls''] 1" 0 "session (Some []) []" 15]
    reap_stage_maps_status [of "waits (WSignaled 15) 0" "stage [''ls''] 1" 0
      "(session (Some []) [])\<lparr>g_return_value := 7\<rparr>" 15]
  by (simp add: waits_def quiet_os_def stage_def session_def SIGINT_def SIGQUIT_def)

text \<open>
  C5. When every stage of a non-empty pipeline exits normally, the status left by
  \<open>ft_waitpid\<close> is the exit code of the last stage, and the pass issues exactly one
  \<open>waitpid\<close> per stage, in list order.
\<close>

theorem ft_waitpid_last_stage_wins:
  assumes "cmds (shell w) \<noteq> []"
    and "\<forall>c \<in> set (cmds (shell w)). \<exists>code. sys_waitpid sys (pid c) = WExited code"
  shows "sys_waitpid sys (pid (last (cmds (shell w)))) = WExited (g_return_value (ft_waitpid sys w))
     \<and> trace (ft_waitpid sys w) = trace w @ map (\<lambda>c. SysWaitpid (pid c)) (cmds (shell w))"
proof -
  obtain pre c where split: "cmds (shell w) = pre @ [c]"
    using assms(1) by (metis append_butlast_last_id)
  then obtain code where code: "sys_waitpid sys (pid c) = WExited code"
    using assms(2) by auto
  have "g_return_value (ft_waitpid sys w) = code"
    by (simp add: ft_waitpid_def split reap_append reap_stage_exited [OF code])
  with split code show ?thesis
    by (simp add: ft_waitpid_def reap_trace)
qed

text \<open>The pipeline \<open>false | true\<close>: process 1 exits with 1, process 2 with 0.\<close>

theorem ft_waitpid_last_stage_wins_witness:
  "g_return_value (ft_waitpid (waits (WExited 1) 0)
      (session (Some []) [stage [''false''] 1, stage [''true''] 2])) = 0 \<and>
   trace (ft_waitpid (waits (WExited 1) 0)
      (session (Some []) [stage [''false''] 1, stage [''true''] 2])) = [SysWaitpid 1, SysWaitpid 2]"
  using ft_waitpid_last_stage_wins [of "session (Some []) [stage [''false''] 1, stage [''true''] 2]"
     "waits (WExited 1) 0"]
  by (simp add: session_def stage_def quiet_os_def waits_def)

text \<open>
  C10. After a stage is processed the stop flag is true exactly when it was true before
  or the recorded status is 130 or 131. So a normal exit with code 130 or 131 sets it, a
  death by an unmapped signal sets it when the earlier status was 130 or 131, and once
  true it stays true to the end of the pass.
\<close>

theorem reap_sets_stop:
  "stop (shell (reap_stage sys c w)) =
     (stop (shell w) \<or> g_return_value (reap_stage sys c w) = 130
        \<or> g_return_value (reap_stage sys c w) = 131) \<and>
   (sys_waitpid sys (pid c) = WExited 130 \<or> sys_waitpid sys (pid c) = WExited 131 \<longrightarrow>
      stop (shell (reap_stage sys c w))) \<and>
   (sys_waitpid sys (pid c) = WSignaled sig \<and> sig \<noteq> SIGINT \<and> sig \<noteq> SIGQUIT \<and>
      (g_return_value w = 130 \<or> g_return_value w = 131) \<longrightarrow>
      stop (shell (reap_stage sys c w))) \<and>
   (stop (shell (reap_stage sys c w)) \<longrightarrow> stop (shell (reap sys rest (reap_stage sys c w))))"
proof (intro conjI)
  show "stop (shell (reap_stage sys c w)) =
     (stop (shell w) \<or> g_return_value (reap_stage sys c w) = 130
        \<or> g_return_value (reap_stage sys c w) = 131)"
    by (rule reap_stage_stop_eq)
  show "sys_waitpid sys (pid c) = WExited 130 \<or> sys_waitpid sys (pid c) = WExited 131 \<longrightarrow>
      stop (shell (reap_stage sys c w))"
    by (auto simp: reap_stage_stop_eq reap_stage_exited)
  show "sys_waitpid sys (pid c) = WSignaled sig \<and> sig \<noteq> SIGINT \<and> sig \<noteq> SIGQUIT \<and>
      (g_return_value w = 130 \<or> g_return_value w = 131) \<longrightarrow>
      stop (shell (reap_stage sys c w))"
    by (auto simp: reap_stage_def sys_call_def Let_def)
  show "stop (shell (reap_stage sys c w)) \<longrightarrow> stop (shell (reap sys rest (reap_stage sys c w)))"
    by (simp add: reap_stop_mono)
qed

text \<open>A stage that exits normally with code 130, followed by one that exits with 0; and
  a stage killed by signal 15 when the earlier status was 131.\<close>

theorem reap_sets_stop_witness:
  "stop (shell (reap_stage (waits (WExited 130) 0) (stage [''a''] 1) (session (Some []) []))) \<and>
   stop (shell (reap (waits (WExited 130) 0) [stage [''b''] 2]
      (reap_stage (waits (WExited 130) 0) (stage [''a''] 1) (session (Some []) [])))) \<and>
   stop (shell (reap_stage (waits (WSignaled 15) 0) (stage [''a''] 1)
      ((session (Some []) [])\<lparr>g_return_value := 131\<rparr>)))"
  using reap_sets_stop [of "waits (WExited 130) 0" "stage [''a''] 1" "session (Some []) []" 15
      "[stage [''b''] 2]"]
    reap_sets_stop [of "waits (WSignaled 15) 0" "stage [''a''] 1"
      "(session (Some []) [])\<lparr>g_return_value := 131\<rparr>" 15 "[]"]
  by (simp add: waits_def quiet_os_def stage_def session_def SIGINT_def SIGQUIT_def
      reap_stage_def sys_call_def Let_def)

section \<open>The echo built-in: flags\<close>

lemma valid_n_flagE:
  assumes "valid_n_flag f"
  obtains k where "f = CHR ''-'' # replicate (Suc k) CHR ''n''"
proof -
  from assms obtain ns where f: "f = CHR ''-'' # ns" and ne: "ns \<noteq> []"
    and alln: "list_all (\<lambda>x. x = CHR ''n'') ns"
    by (auto simp: valid_n_flag_def split: list.splits)
  from alln have "ns = replicate (length ns) CHR ''n''"
    by (induction ns) simp_all
  moreover from ne obtain k where "length ns = Suc k"
    by (cases ns) auto
  ultimately have "f = CHR ''-'' # replicate (Suc k) CHR ''n''"
    using f by simp
  then show thesis ..
qed

lemma skip_n_run:
  "1 \<le> j \<Longrightarrow> j \<le> Suc k \<Longrightarrow> skip_n (CHR ''-'' # replicate k CHR ''n'') j = Suc k"
proof (induction "Suc k - j" arbitrary: j)
  case 0
  then have "j = Suc k" by simp
  then show ?case by (simp add: skip_n.simps)
next
  case (Suc d)
  then have lt: "j < Suc k" by simp
  with Suc.prems obtain j' where j': "j = Suc j'" and "j' < k"
    by (cases j) auto
  then have "byte_at (CHR ''-'' # replicate k CHR ''n'') j = CHR ''n''"
    by (simp add: byte_at_def)
  moreover have "skip_n (CHR ''-'' # replicate k CHR ''n'') (Suc j) = Suc k"
    using Suc lt by (intro Suc.hyps) auto
  ultimately show ?case
    using lt by (subst skip_n.simps) simp
qed

lemma last_check_flag:
  assumes "i < length (str cmd)" and "valid_n_flag (str cmd ! i)"
  shows "last_check i cmd = last_check (Suc i) cmd"
proof -
  from assms(2) obtain k where f: "str cmd ! i = CHR ''-'' # replicate (Suc k) CHR ''n''"
    by (rule valid_n_flagE)
  have "skip_n (str cmd ! i) 1 = Suc (Suc k)"
    unfolding f by (rule skip_n_run) simp_all
  moreover have "byte_at (str cmd ! i) (Suc (Suc k)) = CHR 0x00"
    by (simp add: f byte_at_def)
  moreover have "strncmp_bytes (str cmd ! i) ''-n'' 2 = 0"
    unfolding f by (simp add: numeral_2_eq_2)
  ultimately show ?thesis
    using assms(1) by (subst last_check.simps) (simp add: str_at_def ft_strncmp_def)
qed

lemma last_check_null: "last_check (length (str cmd)) cmd = Inl NullDeref"
  by (subst last_check.simps) (simp add: str_at_def ft_strncmp_def)

lemma last_check_all_flags:
  "i \<le> length (str cmd) \<Longrightarrow> list_all valid_n_flag (drop i (str cmd)) \<Longrightarrow>
     last_check i cmd = last_check (length (str cmd)) cmd"
proof (induction "length (str cmd) - i" arbitrary: i)
  case 0
  then show ?case by simp
next
  case (Suc d)
  then have lt: "i < length (str cmd)" by simp
  then have "drop i (str cmd) = str cmd ! i # drop (Suc i) (str cmd)"
    by (simp add: Cons_nth_drop_Suc)
  with Suc.prems(2) have v: "valid_n_flag (str cmd ! i)"
    and rest: "list_all valid_n_flag (drop (Suc i) (str cmd))"
    by simp_all
  have "last_check i cmd = last_check (Suc i) cmd"
    using lt v by (rule last_check_flag)
  also have "\<dots> = last_check (length (str cmd)) cmd"
    using Suc.hyps lt rest by (intro Suc.hyps) auto
  finally show ?case .
qed

lemma check_n_first_flag:
  assumes "Suc 0 < length (str cmd)" and "valid_n_flag (str cmd ! Suc 0)"
  shows "check_n cmd (Suc 0) (Suc 0) (Suc 0) =
     (case last_check (Suc (Suc 0)) cmd of Inl h \<Rightarrow> Inl h | Inr i \<Rightarrow> Inr (i, 0, 0))"
proof -
  from assms(2) obtain k where f: "str cmd ! Suc 0 = CHR ''-'' # replicate (Suc k) CHR ''n''"
    by (rule valid_n_flagE)
  have "skip_n (str cmd ! Suc 0) (Suc 0) = Suc (Suc k)"
    unfolding f by (rule skip_n_run) simp_all
  moreover have "byte_at (str cmd ! Suc 0) (Suc (Suc k)) = CHR 0x00"
    by (simp add: f byte_at_def)
  moreover have "strncmp_bytes (str cmd ! Suc 0) ''-n'' 2 = 0"
    unfolding f by (simp add: numeral_2_eq_2)
  ultimately show ?thesis
    using assms(1) by (simp add: check_n_def str_at_def ft_strncmp_def)
qed

text \<open>
  C9. When \<open>argv[1]\<close> is a valid flag and every later argument is a valid flag too, the
  scanner \<open>last_check\<close> walks from index 2 to the NULL slot that ends the argument array
  and hands that NULL to the string comparison: \<open>check_n\<close>, and with it \<open>ft_echo\<close>,
  end in the null dereference, with nothing written.
\<close>

theorem ft_echo_trailing_flags_null_deref:
  assumes "str cmd = a0 # f # flags" and "list_all valid_n_flag (f # flags)"
  shows "last_check 2 cmd = last_check (length (str cmd)) cmd
    \<and> str_at cmd (length (str cmd)) = Inr None
    \<and> last_check (length (str cmd)) cmd = Inl NullDeref
    \<and> check_n cmd 1 1 1 = Inl NullDeref
    \<and> ft_echo cmd w = (Inl NullDeref, w)"
proof -
  have len: "Suc 0 < length (str cmd)" and v: "valid_n_flag (str cmd ! Suc 0)"
    using assms by simp_all
  have "list_all valid_n_flag (drop (Suc (Suc 0)) (str cmd))"
    using assms by simp
  moreover have "Suc (Suc 0) \<le> length (str cmd)"
    using assms by simp
  ultimately have adv: "last_check (Suc (Suc 0)) cmd = last_check (length (str cmd)) cmd"
    by (intro last_check_all_flags)
  have chk: "check_n cmd (Suc 0) (Suc 0) (Suc 0) = Inl NullDeref"
    by (simp add: check_n_first_flag [OF len v] adv last_check_null)
  show ?thesis
    using adv chk by (simp add: last_check_null str_at_def ft_echo_def numeral_2_eq_2)
qed

text \<open>The argument vectors \<open>echo -n -nn\<close> and \<open>echo -n\<close>.\<close>

theorem ft_echo_trailing_flags_null_deref_witness:
  "ft_echo (stage [''echo'', ''-n'', ''-nn''] 1) (session (Some []) []) = (Inl NullDeref, session (Some []) [])"
  using ft_echo_trailing_flags_null_deref [of "stage [''echo'', ''-n'', ''-nn''] 1" "''echo''" "''-n''" "[''-nn'']" "session (Some []) []"]
  by (simp add: stage_def valid_n_flag_def)

section \<open>The echo built-in: output\<close>

lemma byte_diff_zero: "int (of_char a) - int (of_char b) = 0 \<longleftrightarrow> a = b"
proof -
  have "(of_char a :: nat) = of_char b \<longleftrightarrow> a = b"
    by (rule of_char_eq_iff)
  then show ?thesis by simp
qed

lemma strncmp_bytes_differ:
  "a \<noteq> b \<Longrightarrow> strncmp_bytes (a # as) (b # bs) (Suc n) \<noteq> 0"
  using byte_diff_zero [of a b] by simp

lemma strncmp_dash_n_iff:
  "strncmp_bytes s ''-n'' 2 = 0 \<longleftrightarrow> (\<exists>r. s = CHR ''-'' # CHR ''n'' # r)"
proof (cases s)
  case Nil
  then show ?thesis by (simp add: numeral_2_eq_2)
next
  case s: (Cons a as)
  show ?thesis
  proof (cases "a = CHR ''-''")
    case False
    then have "strncmp_bytes (a # as) ''-n'' (Suc (Suc 0)) \<noteq> 0"
      by (rule strncmp_bytes_differ)
    with False s show ?thesis by (simp add: numeral_2_eq_2)
  next
    case dash: True
    show ?thesis
    proof (cases as)
      case Nil
      with s dash show ?thesis by (simp add: numeral_2_eq_2)
    next
      case (Cons b bs)
      show ?thesis
      proof (cases "b = CHR ''n''")
        case True
        with s dash Cons show ?thesis by (simp add: numeral_2_eq_2)
      next
        case False
        then have "strncmp_bytes (b # bs) ''n'' (Suc 0) \<noteq> 0"
          by (rule strncmp_bytes_differ)
        with False s dash Cons show ?thesis by (simp add: numeral_2_eq_2)
      qed
    qed
  qed
qed

lemma skip_n_spec:
  "j \<le> length s \<Longrightarrow>
     j \<le> skip_n s j \<and> skip_n s j \<le> length s \<and>
     (\<forall>k. j \<le> k \<and> k < skip_n s j \<longrightarrow> s ! k = CHR ''n'') \<and>
     (skip_n s j < length s \<longrightarrow> s ! skip_n s j \<noteq> CHR ''n'')"
proof (induction s j rule: skip_n.induct)
  case (1 s j)
  show ?case
  proof (cases "j < length s \<and> byte_at s j = CHR ''n''")
    case True
    then have ih: "Suc j \<le> skip_n s (Suc j) \<and> skip_n s (Suc j) \<le> length s \<and>
       (\<forall>k. Suc j \<le> k \<and> k < skip_n s (Suc j) \<longrightarrow> s ! k = CHR ''n'') \<and>
       (skip_n s (Suc j) < length s \<longrightarrow> s ! skip_n s (Suc j) \<noteq> CHR ''n'')"
      using "1.IH" by simp
    have eq: "skip_n s j = skip_n s (Suc j)"
      using True by (subst skip_n.simps) simp
    have "s ! j = CHR ''n''"
      using True by (auto simp: byte_at_def)
    then have "\<forall>k. j \<le> k \<and> k < skip_n s (Suc j) \<longrightarrow> s ! k = CHR ''n''"
      using ih by (metis Suc_leI le_neq_implies_less)
    with ih eq show ?thesis by simp
  next
    case False
    then have eq: "skip_n s j = j"
      by (subst skip_n.simps) (simp only: if_False)
    with False "1.prems" show ?thesis
      by (auto simp: byte_at_def)
  qed
qed

lemma skip_n_full_valid:
  assumes "s = CHR ''-'' # CHR ''n'' # r" and "skip_n s (Suc 0) = length s"
  shows "valid_n_flag s"
proof -
  have "\<forall>k. Suc 0 \<le> k \<and> k < length s \<longrightarrow> s ! k = CHR ''n''"
    using skip_n_spec [of "Suc 0" s] assms by simp
  then have "\<forall>k < length (CHR ''n'' # r). (CHR ''n'' # r) ! k = CHR ''n''"
    using assms(1) by auto
  then have "list_all (\<lambda>x. x = CHR ''n'') (CHR ''n'' # r)"
    unfolding list_all_length by blast
  then show ?thesis
    by (simp add: valid_n_flag_def assms(1))
qed

lemma non_flag_byte:
  assumes "s = CHR ''-'' # CHR ''n'' # r" and "\<not> valid_n_flag s" and "CHR 0x00 \<notin> set s"
  shows "byte_at s (skip_n s (Suc 0)) \<noteq> CHR 0x00"
proof -
  have "skip_n s (Suc 0) \<le> length s"
    using skip_n_spec [of "Suc 0" s] assms(1) by simp
  moreover have "skip_n s (Suc 0) \<noteq> length s"
    using skip_n_full_valid [OF assms(1)] assms(2) by blast
  ultimately have lt: "skip_n s (Suc 0) < length s" by simp
  then have "s ! skip_n s (Suc 0) \<in> set s" by simp
  with assms(3) have "s ! skip_n s (Suc 0) \<noteq> CHR 0x00" by metis
  with lt show ?thesis
    by (simp add: byte_at_def)
qed

lemma last_check_non_flag:
  assumes "i < length (str cmd)" and "\<not> valid_n_flag (str cmd ! i)"
    and "CHR 0x00 \<notin> set (str cmd ! i)"
  shows "last_check i cmd = Inr i"
proof (cases "strncmp_bytes (str cmd ! i) ''-n'' 2 = 0")
  case True
  then obtain r where "str cmd ! i = CHR ''-'' # CHR ''n'' # r"
    using strncmp_dash_n_iff by blast
  then have "byte_at (str cmd ! i) (skip_n (str cmd ! i) (Suc 0)) \<noteq> CHR 0x00"
    using assms(2,3) by (rule non_flag_byte)
  with True assms(1) show ?thesis
    by (subst last_check.simps) (simp add: str_at_def ft_strncmp_def)
next
  case False
  with assms(1) show ?thesis
    by (subst last_check.simps) (simp add: str_at_def ft_strncmp_def)
qed

lemma last_check_flags_then_arg:
  "i + length flags < length (str cmd) \<Longrightarrow> take (length flags) (drop i (str cmd)) = flags \<Longrightarrow>
   list_all valid_n_flag flags \<Longrightarrow> \<not> valid_n_flag (str cmd ! (i + length flags)) \<Longrightarrow>
   CHR 0x00 \<notin> set (str cmd ! (i + length flags)) \<Longrightarrow>
   last_check i cmd = Inr (i + length flags)"
proof (induction flags arbitrary: i)
  case Nil
  then show ?case by (simp add: last_check_non_flag)
next
  case (Cons f fs)
  have lt: "i < length (str cmd)" using Cons.prems(1) by simp
  then have d: "drop i (str cmd) = str cmd ! i # drop (Suc i) (str cmd)"
    by (simp add: Cons_nth_drop_Suc)
  with Cons.prems(2) have hd: "str cmd ! i = f" and tl: "take (length fs) (drop (Suc i) (str cmd)) = fs"
    by simp_all
  have "last_check i cmd = last_check (Suc i) cmd"
    using lt hd Cons.prems(3) by (intro last_check_flag) simp_all
  also have "\<dots> = Inr (Suc i + length fs)"
    using Cons.prems tl by (intro Cons.IH) simp_all
  finally show ?case by simp
qed

lemma echo_loop_prints:
  "i \<le> length (str cmd) \<Longrightarrow>
     echo_loop cmd i w = (Inr (), w\<lparr>fd_out := fd_out w @ join_spaces (drop i (str cmd))\<rparr>)"
proof (induction "length (str cmd) - i" arbitrary: i w)
  case 0
  then show ?case
    by (subst echo_loop.simps) (simp add: str_at_def)
next
  case (Suc d)
  then have lt: "i < length (str cmd)" by simp
  then have d: "drop i (str cmd) = str cmd ! i # drop (Suc i) (str cmd)"
    by (simp add: Cons_nth_drop_Suc)
  show ?case
  proof (cases "Suc i < length (str cmd)")
    case True
    then have d2: "drop (Suc i) (str cmd) = str cmd ! Suc i # drop (Suc (Suc i)) (str cmd)"
      by (simp add: Cons_nth_drop_Suc)
    have ih: "\<And>w'. echo_loop cmd (Suc i) w' =
        (Inr (), w'\<lparr>fd_out := fd_out w' @ join_spaces (drop (Suc i) (str cmd))\<rparr>)"
      using Suc.hyps True by (intro Suc.hyps) auto
    show ?thesis
      using lt True
      by (subst echo_loop.simps)
         (simp add: str_at_def ih Let_def ft_putstr_fd_def ft_putchar_fd_def d d2)
  next
    case False
    with lt have e: "length (str cmd) = Suc i" by simp
    have base: "\<And>w'. echo_loop cmd (Suc i) w' = (Inr (), w')"
      by (subst echo_loop.simps) (simp add: str_at_def e)
    show ?thesis
      by (subst echo_loop.simps)
         (simp add: str_at_def base Let_def ft_putstr_fd_def d e)
  qed
qed


lemma check_n_non_flag:
  assumes "Suc 0 < length (str cmd)" and "\<not> valid_n_flag (str cmd ! Suc 0)"
    and "CHR 0x00 \<notin> set (str cmd ! Suc 0)"
  shows "\<exists>check. check_n cmd (Suc 0) (Suc 0) (Suc 0) = Inr (Suc 0, check, Suc 0) \<and> check \<noteq> 0"
proof (cases "strncmp_bytes (str cmd ! Suc 0) ''-n'' 2 = 0")
  case True
  then obtain r where r: "str cmd ! Suc 0 = CHR ''-'' # CHR ''n'' # r"
    using strncmp_dash_n_iff by blast
  then have nz: "byte_at (str cmd ! Suc 0) (skip_n (str cmd ! Suc 0) (Suc 0)) \<noteq> CHR 0x00"
    using assms(2,3) by (rule non_flag_byte)
  have pos: "skip_n (str cmd ! Suc 0) (Suc 0) \<noteq> 0"
    using skip_n_spec [of "Suc 0" "str cmd ! Suc 0"] r by simp
  have "last_check (Suc 0) cmd = Inr (Suc 0)"
    using assms by (rule last_check_non_flag)
  with True nz pos assms(1) show ?thesis
    by (simp add: check_n_def str_at_def ft_strncmp_def)
next
  case False
  with assms(1) show ?thesis
    by (simp add: check_n_def str_at_def ft_strncmp_def)
qed

lemma ft_echo_prints:
  assumes "str cmd = a0 # flags @ x # rest" and "list_all valid_n_flag flags"
    and "\<not> valid_n_flag x" and "CHR 0x00 \<notin> set x"
  shows "ft_echo cmd w =
    (Inr 0, w\<lparr>fd_out := fd_out w @ join_spaces (x # rest) @ (if flags = [] then ''\<newline>'' else [])\<rparr>)"
proof (cases flags)
  case Nil
  then have s: "str cmd = a0 # x # rest" using assms(1) by simp
  then have "Suc 0 < length (str cmd)" "\<not> valid_n_flag (str cmd ! Suc 0)"
    "CHR 0x00 \<notin> set (str cmd ! Suc 0)"
    using assms(3,4) by simp_all
  then obtain check where "check_n cmd (Suc 0) (Suc 0) (Suc 0) = Inr (Suc 0, check, Suc 0)"
    and "check \<noteq> 0"
    using check_n_non_flag by blast
  moreover have "echo_loop cmd (Suc 0) w =
      (Inr (), w\<lparr>fd_out := fd_out w @ join_spaces (drop (Suc 0) (str cmd))\<rparr>)"
    by (rule echo_loop_prints) (simp add: s)
  ultimately show ?thesis
    by (simp add: ft_echo_def s Nil ft_putchar_fd_def ft_putstr_fd_def)
next
  case (Cons f fs)
  then have s: "str cmd = a0 # f # fs @ x # rest" using assms(1) by simp
  have v: "valid_n_flag f" and vs: "list_all valid_n_flag fs"
    using assms(2) Cons by simp_all
  have "check_n cmd (Suc 0) (Suc 0) (Suc 0) =
     (case last_check (Suc (Suc 0)) cmd of Inl h \<Rightarrow> Inl h | Inr i \<Rightarrow> Inr (i, 0, 0))"
    by (rule check_n_first_flag) (simp_all add: s v)
  moreover have "last_check (Suc (Suc 0)) cmd = Inr (Suc (Suc 0) + length fs)"
    using vs assms(3,4)
    by (intro last_check_flags_then_arg) (simp_all add: s nth_append)
  moreover have "echo_loop cmd (Suc (Suc 0) + length fs) w =
      (Inr (), w\<lparr>fd_out := fd_out w @ join_spaces (drop (Suc (Suc 0) + length fs) (str cmd))\<rparr>)"
    by (rule echo_loop_prints) (simp add: s)
  ultimately show ?thesis
    by (simp add: ft_echo_def s Cons)
qed

lemma ft_echo_examples:
  "ft_echo (stage [''echo'', ''-n'', ''a'', ''b''] p) w = (Inr 0, w\<lparr>fd_out := fd_out w @ ''a b''\<rparr>)"
  "ft_echo (stage [''echo'', ''a'', ''b''] p) w = (Inr 0, w\<lparr>fd_out := fd_out w @ ''a b\<newline>''\<rparr>)"
  "ft_echo (stage [''echo'', ''-n'', ''-n'', ''a''] p) w = (Inr 0, w\<lparr>fd_out := fd_out w @ ''a''\<rparr>)"
  "ft_echo (stage [''echo'', ''-nx'', ''a''] p) w = (Inr 0, w\<lparr>fd_out := fd_out w @ ''-nx a\<newline>''\<rparr>)"
  using ft_echo_prints [of "stage [''echo'', ''-n'', ''a'', ''b''] p" "''echo''" "[''-n'']" "''a''" "[''b'']" w]
    ft_echo_prints [of "stage [''echo'', ''a'', ''b''] p" "''echo''" "[]" "''a''" "[''b'']" w]
    ft_echo_prints [of "stage [''echo'', ''-n'', ''-n'', ''a''] p" "''echo''" "[''-n'', ''-n'']" "''a''" "[]" w]
    ft_echo_prints [of "stage [''echo'', ''-nx'', ''a''] p" "''echo''" "[]" "''-nx''" "[''a'']" w]
  by (simp_all add: stage_def valid_n_flag_def)

text \<open>
  C4. \<open>ft_echo\<close> is documented to return 0 for every argument vector. Whenever an
  argument that is not a flag follows the leading flags it writes the remaining arguments
  separated by single spaces, adds the newline exactly when there is no leading flag, and
  returns 0 (\<open>ft_echo_prints\<close>). With flags only (\<open>echo -n\<close>) or no argument at all
  (\<open>echo\<close>) it reads through the NULL that ends the argument array instead of returning.
\<close>

theorem ft_echo_flag_only_crashes:
  "ft_echo (stage [''echo'', ''-n''] p) w = (Inl NullDeref, w) \<and>
   ft_echo (stage [''echo''] p) w = (Inl NullDeref, w)"
proof
  have "check_n (stage [''echo'', ''-n''] p) (Suc 0) (Suc 0) (Suc 0) =
     (case last_check (Suc (Suc 0)) (stage [''echo'', ''-n''] p) of
        Inl h \<Rightarrow> Inl h | Inr i \<Rightarrow> Inr (i, 0, 0))"
    by (rule check_n_first_flag) (simp_all add: stage_def valid_n_flag_def)
  moreover have "last_check (Suc (Suc 0)) (stage [''echo'', ''-n''] p) = Inl NullDeref"
    using last_check_null [of "stage [''echo'', ''-n''] p"] by (simp add: stage_def)
  ultimately show "ft_echo (stage [''echo'', ''-n''] p) w = (Inl NullDeref, w)"
    by (simp add: ft_echo_def)
  show "ft_echo (stage [''echo''] p) w = (Inl NullDeref, w)"
    by (simp add: ft_echo_def check_n_def str_at_def ft_strncmp_def stage_def)
qed

section \<open>Built-in dispatch\<close>

lemma byte_zero_iff: "(of_char a :: nat) = 0 \<longleftrightarrow> a = CHR 0x00"
  using of_char_eq_iff [of a "CHR 0x00", where ?'a = nat] by simp

lemma strncmp_bytes_exact:
  "CHR 0x00 \<notin> set s \<Longrightarrow> CHR 0x00 \<notin> set t \<Longrightarrow>
     strncmp_bytes s t (Suc (length t)) = 0 \<longleftrightarrow> s = t"
proof (induction t arbitrary: s)
  case Nil
  then show ?case
    by (cases s) (auto simp: byte_zero_iff)
next
  case (Cons b bs)
  show ?case
  proof (cases s)
    case Nil
    with Cons.prems show ?thesis by (auto simp: byte_zero_iff)
  next
    case s: (Cons a as)
    show ?thesis
    proof (cases "a = b")
      case True
      with s Cons show ?thesis by simp
    next
      case False
      then have "strncmp_bytes (a # as) (b # bs) (Suc (length (b # bs))) \<noteq> 0"
        by (rule strncmp_bytes_differ)
      with False s show ?thesis by simp
    qed
  qed
qed

lemma builtin_name_tests:
  assumes "CHR 0x00 \<notin> set s"
  shows "strncmp_bytes s ''pwd'' 4 = 0 \<longleftrightarrow> s = ''pwd''"
    and "strncmp_bytes s ''echo'' 5 = 0 \<longleftrightarrow> s = ''echo''"
    and "strncmp_bytes s ''cd'' 3 = 0 \<longleftrightarrow> s = ''cd''"
    and "strncmp_bytes s ''export'' 7 = 0 \<longleftrightarrow> s = ''export''"
    and "strncmp_bytes s ''unset'' 6 = 0 \<longleftrightarrow> s = ''unset''"
    and "strncmp_bytes s ''env'' 4 = 0 \<longleftrightarrow> s = ''env''"
    and "strncmp_bytes s ''exit'' 5 = 0 \<longleftrightarrow> s = ''exit''"
  using strncmp_bytes_exact [OF assms, of "''pwd''"] strncmp_bytes_exact [OF assms, of "''echo''"]
    strncmp_bytes_exact [OF assms, of "''cd''"] strncmp_bytes_exact [OF assms, of "''export''"]
    strncmp_bytes_exact [OF assms, of "''unset''"] strncmp_bytes_exact [OF assms, of "''env''"]
    strncmp_bytes_exact [OF assms, of "''exit''"]
  by (simp_all add: eval_nat_numeral)

lemma argv0_Cons: "str cmd = name # args \<Longrightarrow> argv0 cmd = Inr name"
  by (simp add: argv0_def str_at_def)

lemma is_builtin_iff:
  assumes "str cmd = name # args" and "CHR 0x00 \<notin> set name"
  shows "is_builtin cmd = Inr (name \<in> set builtin_names)"
  by (simp add: is_builtin_def argv0_Cons [OF assms(1)] builtin_name_tests [OF assms(2)]
      builtin_names_def)

lemma set_status_not_zero: "fst (set_status r) \<noteq> Inr 0"
  by (cases r) (auto simp: set_status_def split: sum.splits)

lemma execute_builtin_other:
  assumes "str cmd = name # args" and "is_builtin cmd = Inr False"
  shows "execute_builtin co sys cmd w = (Inr 0, w)"
  using assms(2)
  by (simp add: is_builtin_def execute_builtin_def argv0_Cons [OF assms(1)] split: if_splits)

lemma execute_builtin_handled:
  assumes "str cmd = name # args" and "is_builtin cmd = Inr True"
  shows "fst (execute_builtin co sys cmd w) \<noteq> Inr 0"
  using assms(2)
  by (simp add: is_builtin_def execute_builtin_def argv0_Cons [OF assms(1)] set_status_not_zero
      split: if_splits)

lemma execute_cmd_other:
  assumes "str cmd = name # args" and "is_builtin cmd = Inr False"
  shows "execute_cmd co sys cmd w = resolve_external sys cmd w"
  by (simp add: execute_cmd_def str_at_def assms(1) execute_builtin_other [OF assms])

text \<open>
  C8. For every command name (a C string), \<open>is_builtin\<close> answers true exactly for the
  seven names, compared as whole strings; \<open>execute_builtin\<close> returns 0 exactly for the
  other names, leaves the state alone for them, and \<open>execute_cmd\<close> then goes on to the
  resolution of an external command.
\<close>

theorem builtin_dispatch_exact:
  assumes "str cmd = name # args" and "CHR 0x00 \<notin> set name"
  shows "is_builtin cmd = Inr (name \<in> set builtin_names) \<and>
     (fst (execute_builtin co sys cmd w) = Inr 0 \<longleftrightarrow> name \<notin> set builtin_names) \<and>
     (name \<notin> set builtin_names \<longrightarrow>
        execute_builtin co sys cmd w = (Inr 0, w) \<and>
        execute_cmd co sys cmd w = resolve_external sys cmd w)"
proof (cases "name \<in> set builtin_names")
  case True
  then have b: "is_builtin cmd = Inr True"
    using is_builtin_iff [OF assms] by simp
  show ?thesis
    using True b execute_builtin_handled [OF assms(1) b] by simp
next
  case False
  then have b: "is_builtin cmd = Inr False"
    using is_builtin_iff [OF assms] by simp
  show ?thesis
    using False b execute_builtin_other [OF assms(1) b] execute_cmd_other [OF assms(1) b]
    by simp
qed

text \<open>The names \<open>pwd\<close>, \<open>pw\<close> and \<open>pwdx\<close>.\<close>

theorem builtin_dispatch_exact_witness:
  "is_builtin (stage [''pwd''] 1) = Inr True \<and>
   is_builtin (stage [''pw''] 1) = Inr False \<and>
   is_builtin (stage [''pwdx''] 1) = Inr False \<and>
   execute_builtin no_collab quiet_os (stage [''pwdx''] 1) (session (Some []) []) =
     (Inr 0, session (Some []) [])"
  using builtin_dispatch_exact [of "stage [''pwd''] 1" "''pwd''" "[]" no_collab quiet_os "session (Some []) []"]
    builtin_dispatch_exact [of "stage [''pw''] 1" "''pw''" "[]" no_collab quiet_os "session (Some []) []"]
    builtin_dispatch_exact [of "stage [''pwdx''] 1" "''pwdx''" "[]" no_collab quiet_os "session (Some []) []"]
  by (simp add: stage_def builtin_names_def)

section \<open>Resolving external commands\<close>








lemma execute_currdir_empty:
  "str cmd = [] # args \<Longrightarrow> execute_currdir sys cmd w = (Inl (Exit 127), not_found [] w)"
  by (simp add: execute_currdir_def argv0_Cons byte_at_def ft_putstr_fd_def STDERR_def
      not_found_def)






text \<open>
  With a \<open>PATH=\<close> entry the search runs for a literal path as well: the same outcome
  follows when no directory of \<open>PATH\<close> holds the path
  (\<open>command_not_found_no_candidate\<close>), and \<open>./ls\<close>, not accessible itself, is found as
  \<open>/bin/./ls\<close> under \<open>PATH=/usr/bin:/bin\<close> and handed to \<open>execve\<close>.
\<close>

lemma literal_path_searched_in_path:
  "\<not> sys_access bin_os ''./ls'' \<and>
   execute_cmd no_collab bin_os (stage [''./ls''] 1)
       (session (Some [''HOME=/root'', ''PATH=/usr/bin:/bin'']) []) =
     (Execve ''/bin/./ls'' [''./ls''] (Some [''HOME=/root'', ''PATH=/usr/bin:/bin'']),
      session (Some [''HOME=/root'', ''PATH=/usr/bin:/bin'']) [])"
  by (simp add: stage_def session_def is_builtin_def argv0_def str_at_def eval_nat_numeral
      bin_os_def quiet_os_def path_index.simps ft_split_def execute_cmd_def execute_builtin_def
      resolve_external_def execute_currdir_def byte_at_def ft_strchr_def ft_execve_def
      ft_strjoin_def)

section \<open>Empty commands\<close>

lemma is_builtin_empty_name: "str cmd = [] # args \<Longrightarrow> is_builtin cmd = Inr False"
  by (simp add: is_builtin_def argv0_Cons eval_nat_numeral)

text \<open>
  C3, amended. A stage whose \<open>argv[0]\<close> is the empty string writes
  \<open>minishell: : command not found\<close> to descriptor 2 and exits with 127. A stage with no
  \<open>argv[0]\<close> exits with 0 and writes nothing.
\<close>

theorem execute_cmd_empty_command:
  "(str cmd = [] \<longrightarrow> execute_cmd co sys cmd w = (Exit 0, w)) \<and>
   (str cmd = [] # args \<longrightarrow>
      execute_cmd co sys cmd w =
        (Exit 127, w\<lparr>fd_err := fd_err w @ ''minishell: : command not found\<newline>''\<rparr>))"
proof (intro conjI impI)
  assume "str cmd = []"
  then show "execute_cmd co sys cmd w = (Exit 0, w)"
    by (simp add: execute_cmd_def str_at_def)
next
  assume s: "str cmd = [] # args"
  have "execute_cmd co sys cmd w = resolve_external sys cmd w"
    using s is_builtin_empty_name [OF s] by (rule execute_cmd_other)
  then show "execute_cmd co sys cmd w =
      (Exit 127, w\<lparr>fd_err := fd_err w @ ''minishell: : command not found\<newline>''\<rparr>)"
    by (simp add: resolve_external_def execute_currdir_empty [OF s] not_found_def)
qed

theorem execute_cmd_empty_command_witness:
  "execute_cmd no_collab quiet_os (stage [] 1) (session (Some []) []) = (Exit 0, session (Some []) []) \<and>
   execute_cmd no_collab quiet_os (stage [[]] 1) (session (Some []) []) =
     (Exit 127, (session (Some []) [])\<lparr>fd_err := ''minishell: : command not found\<newline>''\<rparr>)"
  using execute_cmd_empty_command [of "stage [] 1" no_collab quiet_os "session (Some []) []" "[]"]
    execute_cmd_empty_command [of "stage [[]] 1" no_collab quiet_os "session (Some []) []" "[]"]
  by (simp add: stage_def session_def)

text \<open>The claim as stated fails for a stage with no \<open>argv[0]\<close>: status 0, no message.\<close>

theorem no_argv0_exits_silently:
  "str (stage [] 1) = [] \<and>
   fst (execute_cmd no_collab quiet_os (stage [] 1) (session (Some []) [])) = Exit 0 \<and>
   fd_err (snd (execute_cmd no_collab quiet_os (stage [] 1) (session (Some []) []))) = []"
  by (simp add: execute_cmd_def str_at_def stage_def session_def)

section \<open>The pipeline orchestrator\<close>



lemma launch_status: "g_return_value (launch cs prev_fd w) = g_return_value w"
  by (induction cs arbitrary: prev_fd w) (simp_all add: handle_pipes_def sys_call_def Let_def)


lemma reap_shell_cmds: "cmds (shell (reap sys cs w)) = cmds (shell w)"
  by (induction cs arbitrary: w)
     (simp_all add: reap_stage_def sys_call_def Let_def split: wstatus.split)







text \<open>
  C1. The docstring of \<open>handle_pipes\<close> promises a pipe, a fork and the wiring of the
  child; its body is empty. For \<open>cat | wc\<close> the whole run of \<open>execute\<close> issues four
  \<open>close\<close> calls and two \<open>waitpid\<close> calls, and neither \<open>pipe\<close> nor \<open>fork\<close>.
\<close>

theorem handle_pipes_is_empty:
  "handle_pipes cmd prev_fd w = w \<and>
   execute no_collab quiet_os (cat_wc 1 2 False) =
     (Inr (), (cat_wc 1 2 False)\<lparr>trace :=
        [SysClose (- 1), SysClose 0, SysClose 0, SysClose 0, SysWaitpid 1, SysWaitpid 2]\<rparr>)"
  by (simp add: cat_wc_def stage_def quiet_os_def no_collab_def
      execute_def ft_waitpid_def handle_pipes_def sys_call_def reap_stage_def)

end
